theory Spec2Isabelle
  imports Main
begin

section \<open>Python floats: IEEE 754 binary64\<close>

text \<open>
  The node computes its drive values with Python \<^verbatim>\<open>float\<close> literals, unary minus and
  multiplication, and tests them with \<^verbatim>\<open>== 0.0\<close>. A Python float is an IEEE 754 binary64
  number; it is modelled by its three fields: the sign bit, the 11-bit biased exponent and
  the 52-bit fraction. Equality of two \<open>float\<close> values in HOL is therefore equality of bit
  patterns (it tells \<open>0.0\<close> from \<open>-0.0\<close>), and Python's \<^verbatim>\<open>==\<close> is the separate \<open>float_eq\<close>.
\<close>

datatype float = Float (sign: bool) (expo: nat) (frac: nat)

definition is_nan :: "float \<Rightarrow> bool" where
  "is_nan f = (expo f = 2047 \<and> frac f \<noteq> 0)"

definition is_inf :: "float \<Rightarrow> bool" where
  "is_inf f = (expo f = 2047 \<and> frac f = 0)"

definition is_zero :: "float \<Rightarrow> bool" where
  "is_zero f = (expo f = 0 \<and> frac f = 0)"

text \<open>
  A float that is not a NaN denotes \<open>(-1)^sign * signif * 2^exp2\<close>: the significand has the
  hidden bit unless the exponent field is 0 (zero and the subnormals). Every exponent is at
  least \<open>-1074\<close>, so \<open>scaled\<close>, the value as a multiple of \<open>2^-1074\<close>, is an integer;
  an infinity gets \<open>2^2098\<close>, above every finite value.
\<close>

definition signif :: "float \<Rightarrow> nat" where
  "signif f = (if expo f = 0 then frac f else 2 ^ 52 + frac f)"

definition exp2 :: "float \<Rightarrow> int" where
  "exp2 f = (if expo f = 0 then - 1074 else int (expo f) - 1075)"

definition scaled :: "float \<Rightarrow> int" where
  "scaled f = (if sign f then - 1 else 1) * int (signif f) * 2 ^ nat (exp2 f + 1074)"

text \<open>Python's \<^verbatim>\<open>a == b\<close> and \<^verbatim>\<open>a <= b\<close> on floats: false on a NaN, else by value.\<close>

definition float_eq :: "float \<Rightarrow> float \<Rightarrow> bool" where
  "float_eq a b = (\<not> is_nan a \<and> \<not> is_nan b \<and> scaled a = scaled b)"

definition float_le :: "float \<Rightarrow> float \<Rightarrow> bool" where
  "float_le a b = (\<not> is_nan a \<and> \<not> is_nan b \<and> scaled a \<le> scaled b)"

text \<open>Unary minus flips the sign bit (also of a zero).\<close>

definition float_neg :: "float \<Rightarrow> float" where
  "float_neg f = Float (\<not> sign f) (expo f) (frac f)"

definition float_abs :: "float \<Rightarrow> float" where
  "float_abs f = Float False (expo f) (frac f)"

text \<open>
  Rounding to nearest, ties to even: \<open>round_ratio s p q\<close> is the float of sign \<open>s\<close>
  nearest to the rational \<open>p / q\<close> (with \<open>0 < q\<close>). The exponent of the result's last
  place is \<open>e\<close>; a significand that rounds up to \<open>2^53\<close> moves to the next binade, a
  result of \<open>2^1024\<close> or more is an infinity, one below \<open>2^-1022\<close> is subnormal.
\<close>

fun bit_length :: "nat \<Rightarrow> nat" where
  "bit_length n = (if n = 0 then 0 else bit_length (n div 2) + 1)"

declare bit_length.simps [simp del]

definition round_half_even :: "nat \<Rightarrow> nat \<Rightarrow> nat" where
  "round_half_even p q =
     (let n = p div q; r = p mod q
      in if 2 * r < q then n
         else if q < 2 * r then n + 1
         else if even n then n else n + 1)"

definition floor_log2 :: "nat \<Rightarrow> nat \<Rightarrow> int" where
  "floor_log2 p q =
     (let k = int (bit_length p) - int (bit_length q)
      in if q * 2 ^ nat k \<le> p * 2 ^ nat (- k) then k else k - 1)"

definition round_ratio :: "bool \<Rightarrow> nat \<Rightarrow> nat \<Rightarrow> float" where
  "round_ratio s p q =
     (if p = 0 then Float s 0 0
      else
        let e = max (floor_log2 p q - 52) (- 1074);
            m = round_half_even (p * 2 ^ nat (- e)) (q * 2 ^ nat e);
            e' = (if m = 2 ^ 53 then e + 1 else e);
            m' = (if m = 2 ^ 53 then 2 ^ 52 else m)
        in if m' < 2 ^ 52 then Float s 0 m'
           else if 2047 \<le> e' + 1075 then Float s 2047 0
           else Float s (nat (e' + 1075)) (m' - 2 ^ 52))"

text \<open>
  A decimal literal \<^verbatim>\<open>d1 d2 ... . ... dn\<close> with \<open>k\<close> digits after the point is the float
  nearest to \<open>d / 10^k\<close>, where \<open>d\<close> is the number its digits spell: \<^verbatim>\<open>1.45\<close> is
  \<open>float_lit 145 2\<close>.
\<close>

definition float_lit :: "nat \<Rightarrow> nat \<Rightarrow> float" where
  "float_lit d k = round_ratio False d (10 ^ k)"

text \<open>
  Multiplication rounds the exact product. A NaN operand is returned as it is, and
  infinity times zero is the quiet NaN; no value of the node reaches these cases.
\<close>

definition float_mul :: "float \<Rightarrow> float \<Rightarrow> float" where
  "float_mul a b =
     (let s = (sign a \<noteq> sign b)
      in if is_nan a then a
         else if is_nan b then b
         else if is_inf a \<or> is_inf b then
           (if is_zero a \<or> is_zero b then Float True 2047 (2 ^ 51) else Float s 2047 0)
         else
           round_ratio s (signif a * signif b * 2 ^ nat (exp2 a + exp2 b))
             (2 ^ nat (- (exp2 a + exp2 b))))"

section \<open>Configuration and the steering table\<close>

definition MAX_SPEED :: float where
  "MAX_SPEED = float_lit 5 1"

definition TURN_SPEED :: float where
  "TURN_SPEED = float_lit 4 1"

definition FORWARD :: float where
  "FORWARD = MAX_SPEED"

definition BACKWARD :: float where
  "BACKWARD = float_neg MAX_SPEED"

text \<open>
  The \<^verbatim>\<open>if\<close>/\<^verbatim>\<open>elif\<close> chain of \<^verbatim>\<open>steer_vehicle\<close>: the four values it hands to
  \<^verbatim>\<open>set_speeds\<close> and the action it returns. In Python unary minus binds tighter than
  \<^verbatim>\<open>*\<close>: \<^verbatim>\<open>-BACKWARD*1.3\<close> is \<^verbatim>\<open>(-BACKWARD)*1.3\<close>.
\<close>

definition steer_values :: "int \<Rightarrow> float \<times> float \<times> float \<times> float \<times> string" where
  "steer_values control_word =
     (if control_word = 1 then
        (float_mul FORWARD (float_lit 145 2), float_neg FORWARD,
         float_mul FORWARD (float_lit 145 2), float_neg FORWARD, ''FORWARD'')
      else if control_word = 2 then
        (BACKWARD, float_mul (float_neg BACKWARD) (float_lit 13 1),
         BACKWARD, float_mul (float_neg BACKWARD) (float_lit 13 1), ''BACKWART'')
      else if control_word = 3 then
        (float_mul FORWARD (float_lit 15 1), float_mul (float_neg BACKWARD) (float_lit 15 1),
         float_mul BACKWARD (float_lit 5 1), float_mul (float_neg FORWARD) (float_lit 5 1),
         ''LEFT'')
      else if control_word = 4 then
        (float_mul BACKWARD (float_lit 5 1), float_mul (float_neg FORWARD) (float_lit 5 1),
         float_mul FORWARD (float_lit 15 1), float_mul (float_neg BACKWARD) (float_lit 15 1),
         ''RIGHT'')
      else if control_word = 5 then
        (float_mul BACKWARD (float_lit 15 1), float_mul (float_neg FORWARD) (float_lit 15 1),
         float_mul BACKWARD (float_lit 15 1), float_mul (float_neg FORWARD) (float_lit 15 1),
         ''TURN-LEFT'')
      else if control_word = 6 then
        (float_mul FORWARD (float_lit 15 1), float_mul (float_neg BACKWARD) (float_lit 15 1),
         float_mul FORWARD (float_lit 15 1), float_mul (float_neg BACKWARD) (float_lit 15 1),
         ''TURN-RIGHT'')
      else if control_word = 7 then
        (float_lit 0 1, float_mul (float_neg FORWARD) (float_lit 5 1),
         float_mul FORWARD (float_lit 15 1), float_lit 0 1, ''DIAGONAL-LEFT'')
      else if control_word = 8 then
        (float_mul FORWARD (float_lit 15 1), float_neg (float_lit 0 1),
         float_lit 0 1, float_mul (float_neg FORWARD) (float_lit 5 1), ''DIAGONAL-RIGHT'')
      else
        (float_lit 0 1, float_lit 0 1, float_lit 0 1, float_lit 0 1, ''STOP (Detached)''))"

definition steer_vector :: "int \<Rightarrow> float \<times> float \<times> float \<times> float" where
  "steer_vector control_word =
     (case steer_values control_word of (fl, fr, rl, rr, action) \<Rightarrow> (fl, fr, rl, rr))"

definition steer_action :: "int \<Rightarrow> string" where
  "steer_action control_word =
     (case steer_values control_word of (fl, fr, rl, rr, action) \<Rightarrow> action)"

text \<open>
  The table of the specification, section 4.1, written from its words: the base magnitudes
  are \<open>FORWARD = 0.5\<close> and \<open>BACKWARD = -0.5\<close>, every entry is a floating-point product
  of one of them, and any code without a row of its own has the row of zeros.
\<close>

definition spec_table :: "int \<Rightarrow> float \<times> float \<times> float \<times> float" where
  "spec_table code =
     (let F = float_lit 5 1; B = float_neg (float_lit 5 1); Z = float_lit 0 1
      in if code = 1 then
           (float_mul F (float_lit 145 2), float_neg F, float_mul F (float_lit 145 2), float_neg F)
         else if code = 2 then
           (B, float_mul (float_neg B) (float_lit 13 1), B, float_mul (float_neg B) (float_lit 13 1))
         else if code = 3 then
           (float_mul F (float_lit 15 1), float_mul (float_neg B) (float_lit 15 1),
            float_mul B (float_lit 5 1), float_mul (float_neg F) (float_lit 5 1))
         else if code = 4 then
           (float_mul B (float_lit 5 1), float_mul (float_neg F) (float_lit 5 1),
            float_mul F (float_lit 15 1), float_mul (float_neg B) (float_lit 15 1))
         else if code = 5 then
           (float_mul B (float_lit 15 1), float_mul (float_neg F) (float_lit 15 1),
            float_mul B (float_lit 15 1), float_mul (float_neg F) (float_lit 15 1))
         else if code = 6 then
           (float_mul F (float_lit 15 1), float_mul (float_neg B) (float_lit 15 1),
            float_mul F (float_lit 15 1), float_mul (float_neg B) (float_lit 15 1))
         else if code = 7 then
           (Z, float_mul (float_neg F) (float_lit 5 1), float_mul F (float_lit 15 1), Z)
         else if code = 8 then
           (float_mul F (float_lit 15 1), float_neg Z, Z, float_mul (float_neg F) (float_lit 5 1))
         else (Z, Z, Z, Z))"

definition vec_eq :: "float \<times> float \<times> float \<times> float \<Rightarrow> float \<times> float \<times> float \<times> float \<Rightarrow> bool" where
  "vec_eq v w =
     (case v of (a, b, c, d) \<Rightarrow> case w of (a', b', c', d') \<Rightarrow>
        float_eq a a' \<and> float_eq b b' \<and> float_eq c c' \<and> float_eq d d')"

section \<open>The motors\<close>

text \<open>
  Modelled from the spec: the \<^verbatim>\<open>Servo\<close> class the node drives its pins with comes from
  a library outside the repository. Section 4.2 of the specification describes it as a
  channel that is acquired in the detached state, that is detached while its value is
  \<^verbatim>\<open>None\<close> and active with a value otherwise, and whose acquisition and release may
  fail. A motor is the object the node holds: its pin, the \<^verbatim>\<open>value\<close> attribute the node
  assigns, and whether \<^verbatim>\<open>close()\<close> has released it. Which pins can be acquired and
  which can be released is the environment's choice, a parameter of the model.
\<close>

record motor =
  pin :: nat
  mvalue :: "float option"
  closed :: bool

datatype exn =
  IndexError | ValueError | OSError | DeviceError | KeyboardInterrupt | SystemExit nat

definition detached :: "motor \<Rightarrow> bool" where
  "detached m = (mvalue m = None)"

definition FRONT_LEFT_PIN :: nat where
  "FRONT_LEFT_PIN = 27"

definition FRONT_RIGHT_PIN :: nat where
  "FRONT_RIGHT_PIN = 17"

definition REAR_LEFT_PIN :: nat where
  "REAR_LEFT_PIN = 22"

definition REAR_RIGHT_PIN :: nat where
  "REAR_RIGHT_PIN = 23"

text \<open>
  \<^verbatim>\<open>init_motor\<close>: the motor starts with \<^verbatim>\<open>initial_value=None\<close>; any exception of the
  constructor is caught, reported, and turned into \<^verbatim>\<open>sys.exit(1)\<close>.
\<close>

definition init_motor :: "(nat \<Rightarrow> bool) \<Rightarrow> nat \<Rightarrow> exn + motor" where
  "init_motor avail p =
     (if avail p then Inr \<lparr>pin = p, mvalue = None, closed = False\<rparr>
      else Inl (SystemExit 1))"

text \<open>
  The module creates the four motors in turn and then the list \<^verbatim>\<open>all_motors\<close>. When
  an \<^verbatim>\<open>init_motor\<close> exits, the motors made before it are what the process leaves.
\<close>

datatype startup = Aborted exn "motor list" | Started "motor list"

definition init_all_motors :: "(nat \<Rightarrow> bool) \<Rightarrow> startup" where
  "init_all_motors avail =
     (case init_motor avail FRONT_LEFT_PIN of
        Inl e \<Rightarrow> Aborted e []
      | Inr motor_fl \<Rightarrow>
     (case init_motor avail FRONT_RIGHT_PIN of
        Inl e \<Rightarrow> Aborted e [motor_fl]
      | Inr motor_fr \<Rightarrow>
     (case init_motor avail REAR_LEFT_PIN of
        Inl e \<Rightarrow> Aborted e [motor_fl, motor_fr]
      | Inr motor_rl \<Rightarrow>
     (case init_motor avail REAR_RIGHT_PIN of
        Inl e \<Rightarrow> Aborted e [motor_fl, motor_fr, motor_rl]
      | Inr motor_rr \<Rightarrow> Started [motor_fl, motor_fr, motor_rl, motor_rr]))))"

text \<open>
  \<^verbatim>\<open>set_speeds\<close>: the loop over \<^verbatim>\<open>enumerate(all_motors)\<close>. The index \<open>i\<close> reads
  \<^verbatim>\<open>vals[i]\<close>, which raises IndexError past the four values; the motors assigned before
  an exception keep their new values.
\<close>

fun set_speeds_loop :: "float list \<Rightarrow> nat \<Rightarrow> motor list \<Rightarrow> motor list \<times> exn option" where
  "set_speeds_loop vals i [] = ([], None)"
| "set_speeds_loop vals i (motor # rest) =
     (if length vals \<le> i then (motor # rest, Some IndexError)
      else
        let motor' =
              (if float_eq (vals ! i) (float_lit 0 1) then motor\<lparr>mvalue := None\<rparr>
               else motor\<lparr>mvalue := Some (vals ! i)\<rparr>)
        in case set_speeds_loop vals (i + 1) rest of
             (rest', e) \<Rightarrow> (motor' # rest', e))"

definition set_speeds ::
  "float \<Rightarrow> float \<Rightarrow> float \<Rightarrow> float \<Rightarrow> motor list \<Rightarrow> motor list \<times> exn option" where
  "set_speeds fl_val fr_val rl_val rr_val all_motors =
     set_speeds_loop [fl_val, fr_val, rl_val, rr_val] 0 all_motors"

text \<open>\<^verbatim>\<open>steer_vehicle\<close>: the values of the chain go to \<^verbatim>\<open>set_speeds\<close>, the action is returned.\<close>

definition steer_vehicle :: "int \<Rightarrow> motor list \<Rightarrow> motor list \<times> (exn + string)" where
  "steer_vehicle control_word all_motors =
     (case steer_values control_word of
        (fl, fr, rl, rr, action) \<Rightarrow>
          (case set_speeds fl fr rl rr all_motors of
             (ms, None) \<Rightarrow> (ms, Inr action)
           | (ms, Some e) \<Rightarrow> (ms, Inl e)))"

section \<open>Reading the control word\<close>

text \<open>
  The control file is absent, or reading it raises (an I/O error, bytes that do not
  decode), or it has a text: a Python \<^verbatim>\<open>str\<close>, the list of its Unicode code points.
  What \<^verbatim>\<open>str.strip\<close>, \<^verbatim>\<open>str.isdigit\<close> and \<^verbatim>\<open>int\<close> do with a character is read from the
  interpreter's Unicode database, which is not part of the repository and changes with the
  interpreter: it is a parameter of the model. Its tables are \<open>decimal\<close>, the value of a
  decimal digit (\<^verbatim>\<open>unicodedata.decimal\<close>; \<open>None\<close> for any other character),
  \<open>isdigit_cp\<close>, the characters \<^verbatim>\<open>str.isdigit\<close> accepts (the decimal digits and other
  digit characters such as the superscripts), and \<open>isspace_cp\<close>, the white space that
  \<^verbatim>\<open>str.strip\<close> removes.
\<close>

record ucd =
  decimal :: "nat \<Rightarrow> nat option"
  isdigit_cp :: "nat \<Rightarrow> bool"
  isspace_cp :: "nat \<Rightarrow> bool"

datatype source = Missing | Unreadable | Content "nat list"

definition strip :: "ucd \<Rightarrow> nat list \<Rightarrow> nat list" where
  "strip db text =
     rev (dropWhile (isspace_cp db) (rev (dropWhile (isspace_cp db) text)))"

definition isdigit :: "ucd \<Rightarrow> nat list \<Rightarrow> bool" where
  "isdigit db content = (content \<noteq> [] \<and> list_all (isdigit_cp db) content)"

text \<open>
  \<^verbatim>\<open>int\<close> on a text that has passed \<^verbatim>\<open>isdigit\<close> (so it has no sign, space or
  underscore): it reads decimal digits of any script, most significant first, and raises
  ValueError on a character without a decimal value (a superscript, say), on the empty
  text, and on more digits than \<^verbatim>\<open>sys.int_max_str_digits\<close>, 4300 by default since
  Python 3.11, leading zeros counted.
\<close>

fun int_digits :: "ucd \<Rightarrow> int \<Rightarrow> nat list \<Rightarrow> int option" where
  "int_digits db n [] = Some n"
| "int_digits db n (c # cs) =
     (case decimal db c of
        None \<Rightarrow> None
      | Some d \<Rightarrow> int_digits db (10 * n + int d) cs)"

definition int_max_str_digits :: nat where
  "int_max_str_digits = 4300"

definition py_int :: "ucd \<Rightarrow> nat list \<Rightarrow> exn + int" where
  "py_int db content =
     (if content = [] then Inl ValueError
      else if int_max_str_digits < length content then Inl ValueError
      else case int_digits db 0 content of
             None \<Rightarrow> Inl ValueError
           | Some n \<Rightarrow> Inr n)"

text \<open>
  Step 1 of the loop body: \<^verbatim>\<open>control_word\<close> starts at 0 and changes only when the file
  exists, the read succeeds, the stripped content passes \<^verbatim>\<open>isdigit\<close> and \<^verbatim>\<open>int\<close>
  returns; \<^verbatim>\<open>except Exception\<close> swallows every exception of the read and the conversion.
\<close>

definition read_control_word :: "ucd \<Rightarrow> source \<Rightarrow> int" where
  "read_control_word db src =
     (case src of
        Missing \<Rightarrow> 0
      | Unreadable \<Rightarrow> 0
      | Content text \<Rightarrow>
          (let content = strip db text
           in if isdigit db content then
                (case py_int db content of Inr n \<Rightarrow> n | Inl e \<Rightarrow> 0)
              else 0))"

section \<open>The main loop\<close>

text \<open>
  \<^verbatim>\<open>while True\<close> never ends by itself: the loop is driven by what the environment does
  at each pass. \<open>Tick src\<close> is a full pass with the control file in state \<open>src\<close>;
  \<open>Raise e\<close> is an exception raised in the loop body outside the guarded read, such as
  the KeyboardInterrupt of Ctrl-C. The loop runs over the events seen so far and returns
  the motors, the lines reported (control word and action), and the exception that ended
  it, or \<open>None\<close> while it is still running.
\<close>

datatype event = Tick source | Raise exn

fun run_loop ::
  "ucd \<Rightarrow> event list \<Rightarrow> motor list \<Rightarrow> (int \<times> string) list \<Rightarrow>
     motor list \<times> (int \<times> string) list \<times> exn option" where
  "run_loop db [] ms out = (ms, out, None)"
| "run_loop db (Raise e # events) ms out = (ms, out, Some e)"
| "run_loop db (Tick src # events) ms out =
     (let control_word = read_control_word db src
      in case steer_vehicle control_word ms of
           (ms', Inl e) \<Rightarrow> (ms', out, Some e)
         | (ms', Inr action) \<Rightarrow> run_loop db events ms' (out @ [(control_word, action)]))"

text \<open>
  The \<^verbatim>\<open>finally\<close> block: for each motor in turn \<^verbatim>\<open>motor.value = None\<close>, then
  \<^verbatim>\<open>motor.close()\<close>. Nothing catches an exception of \<^verbatim>\<open>close\<close>: it ends the block
  with the motors after it untouched.
\<close>

fun cleanup :: "(nat \<Rightarrow> bool) \<Rightarrow> motor list \<Rightarrow> motor list \<times> exn option" where
  "cleanup close_ok [] = ([], None)"
| "cleanup close_ok (motor # rest) =
     (if close_ok (pin motor) then
        (case cleanup close_ok rest of
           (rest', e) \<Rightarrow> (motor\<lparr>mvalue := None, closed := True\<rparr> # rest', e))
      else (motor\<lparr>mvalue := None\<rparr> # rest, Some DeviceError))"

text \<open>
  \<^verbatim>\<open>main\<close>: \<^verbatim>\<open>try\<close> the loop, \<^verbatim>\<open>except KeyboardInterrupt\<close>, \<^verbatim>\<open>finally\<close> clean up. A
  KeyboardInterrupt is handled and \<^verbatim>\<open>main\<close> returns; any other exception leaves
  \<^verbatim>\<open>main\<close> after the clean-up; an exception of the clean-up itself replaces both.
\<close>

datatype status = Running | Returned | Raised exn

definition main ::
  "ucd \<Rightarrow> (nat \<Rightarrow> bool) \<Rightarrow> event list \<Rightarrow> motor list \<Rightarrow>
     motor list \<times> (int \<times> string) list \<times> status" where
  "main db close_ok events all_motors =
     (case run_loop db events all_motors [] of
        (ms, out, None) \<Rightarrow> (ms, out, Running)
      | (ms, out, Some e) \<Rightarrow>
          (case cleanup close_ok ms of
             (ms', Some e') \<Rightarrow> (ms', out, Raised e')
           | (ms', None) \<Rightarrow>
               (ms', out, if e = KeyboardInterrupt then Returned else Raised e)))"

text \<open>
  The whole script: the module's initialisation, then \<^verbatim>\<open>main\<close>. The result is the state
  in which the script's own code ends: its motors, its reports, and how it ended.
\<close>

definition script ::
  "ucd \<Rightarrow> (nat \<Rightarrow> bool) \<Rightarrow> (nat \<Rightarrow> bool) \<Rightarrow> event list \<Rightarrow>
     motor list \<times> (int \<times> string) list \<times> status" where
  "script db avail close_ok events =
     (case init_all_motors avail of
        Aborted e ms \<Rightarrow> (ms, [], Raised e)
      | Started all_motors \<Rightarrow> main db close_ok events all_motors)"

section \<open>Auxiliary notions of the statements\<close>

text \<open>
  What one pass of the loop of \<^verbatim>\<open>set_speeds\<close> does to its motor, with the test
  \<^verbatim>\<open>== 0.0\<close> replaced by what it decides (lemma \<open>float_eq_lit_zero_iff\<close>).
\<close>

definition assign :: "float \<Rightarrow> motor \<Rightarrow> motor" where
  "assign v m = (if is_zero v then m\<lparr>mvalue := None\<rparr> else m\<lparr>mvalue := Some v\<rparr>)"

text \<open>The range of a servo value: \<open>-1.0 <= v <= 1.0\<close>.\<close>

definition in_unit_range :: "float \<Rightarrow> bool" where
  "in_unit_range v =
     (float_le (float_neg (float_lit 1 0)) v \<and> float_le v (float_lit 1 0))"

text \<open>What the \<^verbatim>\<open>finally\<close> block does to a motor whose \<^verbatim>\<open>close()\<close> returns.\<close>

definition release :: "motor \<Rightarrow> motor" where
  "release m = m\<lparr>mvalue := None, closed := True\<rparr>"

text \<open>
  A content that consists exclusively of decimal digits, one at least, and the
  non-negative integer it spells. \<^verbatim>\<open>int\<close> returns that integer when, besides, every
  character is one \<^verbatim>\<open>isdigit\<close> accepts (as every decimal digit of a real database is) and
  the digits are within the limit. A read error is an absent file, a read that raises, or any
  other content.
\<close>

definition all_decimal :: "ucd \<Rightarrow> nat list \<Rightarrow> bool" where
  "all_decimal db content =
     (content \<noteq> [] \<and> list_all (\<lambda>c. decimal db c \<noteq> None) content)"

definition decimal_value :: "ucd \<Rightarrow> nat list \<Rightarrow> int" where
  "decimal_value db content =
     foldl (\<lambda>n c. 10 * n + (case decimal db c of None \<Rightarrow> 0 | Some d \<Rightarrow> int d)) 0 content"

definition int_accepts :: "ucd \<Rightarrow> nat list \<Rightarrow> bool" where
  "int_accepts db content =
     (all_decimal db content \<and> list_all (isdigit_cp db) content
      \<and> length content \<le> int_max_str_digits)"

definition read_error :: "ucd \<Rightarrow> source \<Rightarrow> bool" where
  "read_error db src =
     (case src of
        Missing \<Rightarrow> True
      | Unreadable \<Rightarrow> True
      | Content text \<Rightarrow> \<not> int_accepts db (strip db text))"

text \<open>
  A database to evaluate runs with: the tables of Unicode 14.0.0. The decimal digits come
  in 66 blocks of ten, each in the order 0 to 9, given by their zeros (48 is the ASCII
  block, 1632 the Arabic-Indic one); \<^verbatim>\<open>isdigit\<close> accepts 128 more characters, given as
  ranges (178 is the superscript two); the white space is given as ranges. \<open>py_str\<close>
  turns a string of ASCII characters into its code points.
\<close>

definition decimal_zeros :: "nat list" where
  "decimal_zeros =
     [48, 1632, 1776, 1984, 2406, 2534, 2662, 2790, 2918, 3046, 3174, 3302, 3430, 3558,
      3664, 3792, 3872, 4160, 4240, 6112, 6160, 6470, 6608, 6784, 6800, 6992, 7088, 7232,
      7248, 42528, 43216, 43264, 43472, 43504, 43600, 44016, 65296, 66720, 68912, 69734,
      69872, 69942, 70096, 70384, 70736, 70864, 71248, 71360, 71472, 71904, 72016, 72784,
      73040, 73120, 92768, 92864, 93008, 120782, 120792, 120802, 120812, 120822, 123200,
      123632, 125264, 130032]"

definition other_digit_ranges :: "(nat \<times> nat) list" where
  "other_digit_ranges =
     [(178, 179), (185, 185), (4969, 4977), (6618, 6618), (8304, 8304), (8308, 8313),
      (8320, 8329), (9312, 9320), (9332, 9340), (9352, 9360), (9450, 9450), (9461, 9469),
      (9471, 9471), (10102, 10110), (10112, 10120), (10122, 10130), (68160, 68163),
      (69216, 69224), (69714, 69722), (127232, 127242)]"

definition space_ranges :: "(nat \<times> nat) list" where
  "space_ranges =
     [(9, 13), (28, 32), (133, 133), (160, 160), (5760, 5760), (8192, 8202), (8232, 8233),
      (8239, 8239), (8287, 8287), (12288, 12288)]"

definition in_ranges :: "(nat \<times> nat) list \<Rightarrow> nat \<Rightarrow> bool" where
  "in_ranges rs c = list_ex (\<lambda>r. fst r \<le> c \<and> c \<le> snd r) rs"

definition unicode_14 :: ucd where
  "unicode_14 =
     \<lparr>decimal =
        (\<lambda>c. case filter (\<lambda>z. z \<le> c \<and> c < z + 10) decimal_zeros of
                [] \<Rightarrow> None
              | z # zs \<Rightarrow> Some (c - z)),
      isdigit_cp =
        (\<lambda>c. list_ex (\<lambda>z. z \<le> c \<and> c < z + 10) decimal_zeros \<or> in_ranges other_digit_ranges c),
      isspace_cp = in_ranges space_ranges\<rparr>"

definition py_str :: "string \<Rightarrow> nat list" where
  "py_str s = map of_char s"

section \<open>Evaluating the constants\<close>

lemma bit_length_0: "bit_length 0 = 0"
  by (simp add: bit_length.simps)

lemma bit_length_1: "bit_length (Suc 0) = 1"
  by (simp add: bit_length.simps)

lemma bit_length_numeral: "bit_length (numeral n) = bit_length (numeral n div 2) + 1"
  by (subst bit_length.simps) simp

lemmas round_eval =
  round_ratio_def floor_log2_def round_half_even_def
  bit_length_0 bit_length_1 bit_length_numeral Let_def

lemma lit_0_5: "float_lit 5 1 = Float False 1022 0"
  by (simp add: float_lit_def round_eval)

lemma lit_0_0: "float_lit 0 1 = Float False 0 0"
  by (simp add: float_lit_def round_ratio_def)

lemma lit_1_45: "float_lit 145 2 = Float False 1023 2026619832316723"
  by (simp add: float_lit_def round_eval)

lemma lit_1_3: "float_lit 13 1 = Float False 1023 1351079888211149"
  by (simp add: float_lit_def round_eval)

lemma lit_1_5: "float_lit 15 1 = Float False 1023 2251799813685248"
  by (simp add: float_lit_def round_eval)

lemma lit_0_725: "float_lit 725 3 = Float False 1022 2026619832316723"
  by (simp add: float_lit_def round_eval)

lemma lit_1_0: "float_lit 1 0 = Float False 1023 0"
  by (simp add: float_lit_def round_eval)

lemma lit_0_75: "float_lit 75 2 = Float False 1022 2251799813685248"
  by (simp add: float_lit_def round_eval)

lemmas float_mul_eval =
  float_mul_def is_nan_def is_inf_def is_zero_def signif_def exp2_def round_eval

lemma mul_half_1_45:
  "float_mul (Float s 1022 0) (Float False 1023 2026619832316723) = Float s 1022 2026619832316723"
  by (simp add: float_mul_eval)

lemma mul_half_1_3:
  "float_mul (Float s 1022 0) (Float False 1023 1351079888211149) = Float s 1022 1351079888211149"
  by (simp add: float_mul_eval)

lemma mul_half_1_5:
  "float_mul (Float s 1022 0) (Float False 1023 2251799813685248) = Float s 1022 2251799813685248"
  by (simp add: float_mul_eval)

lemma mul_half_half:
  "float_mul (Float s 1022 0) (Float False 1022 0) = Float s 1021 0"
  by (simp add: float_mul_eval)

lemmas constants_eval =
  MAX_SPEED_def FORWARD_def BACKWARD_def float_neg_def
  lit_0_5 lit_0_0 lit_1_45 lit_1_3 lit_1_5 lit_0_725
  mul_half_1_45 mul_half_1_3 mul_half_1_5 mul_half_half

text \<open>The bit patterns of the steering values and of the specification's table.\<close>

lemma steer_values_bits:
  "steer_values cw =
     (if cw = 1 then
        (Float False 1022 2026619832316723, Float True 1022 0,
         Float False 1022 2026619832316723, Float True 1022 0, ''FORWARD'')
      else if cw = 2 then
        (Float True 1022 0, Float False 1022 1351079888211149,
         Float True 1022 0, Float False 1022 1351079888211149, ''BACKWART'')
      else if cw = 3 then
        (Float False 1022 2251799813685248, Float False 1022 2251799813685248,
         Float True 1021 0, Float True 1021 0, ''LEFT'')
      else if cw = 4 then
        (Float True 1021 0, Float True 1021 0,
         Float False 1022 2251799813685248, Float False 1022 2251799813685248, ''RIGHT'')
      else if cw = 5 then
        (Float True 1022 2251799813685248, Float True 1022 2251799813685248,
         Float True 1022 2251799813685248, Float True 1022 2251799813685248, ''TURN-LEFT'')
      else if cw = 6 then
        (Float False 1022 2251799813685248, Float False 1022 2251799813685248,
         Float False 1022 2251799813685248, Float False 1022 2251799813685248, ''TURN-RIGHT'')
      else if cw = 7 then
        (Float False 0 0, Float True 1021 0, Float False 1022 2251799813685248,
         Float False 0 0, ''DIAGONAL-LEFT'')
      else if cw = 8 then
        (Float False 1022 2251799813685248, Float True 0 0, Float False 0 0,
         Float True 1021 0, ''DIAGONAL-RIGHT'')
      else (Float False 0 0, Float False 0 0, Float False 0 0, Float False 0 0,
            ''STOP (Detached)''))"
  unfolding steer_values_def by (simp add: constants_eval del: One_nat_def)

lemma spec_table_bits:
  "spec_table cw =
     (if cw = 1 then
        (Float False 1022 2026619832316723, Float True 1022 0,
         Float False 1022 2026619832316723, Float True 1022 0)
      else if cw = 2 then
        (Float True 1022 0, Float False 1022 1351079888211149,
         Float True 1022 0, Float False 1022 1351079888211149)
      else if cw = 3 then
        (Float False 1022 2251799813685248, Float False 1022 2251799813685248,
         Float True 1021 0, Float True 1021 0)
      else if cw = 4 then
        (Float True 1021 0, Float True 1021 0,
         Float False 1022 2251799813685248, Float False 1022 2251799813685248)
      else if cw = 5 then
        (Float True 1022 2251799813685248, Float True 1022 2251799813685248,
         Float True 1022 2251799813685248, Float True 1022 2251799813685248)
      else if cw = 6 then
        (Float False 1022 2251799813685248, Float False 1022 2251799813685248,
         Float False 1022 2251799813685248, Float False 1022 2251799813685248)
      else if cw = 7 then
        (Float False 0 0, Float True 1021 0, Float False 1022 2251799813685248,
         Float False 0 0)
      else if cw = 8 then
        (Float False 1022 2251799813685248, Float True 0 0, Float False 0 0,
         Float True 1021 0)
      else (Float False 0 0, Float False 0 0, Float False 0 0, Float False 0 0))"
  unfolding spec_table_def by (simp add: constants_eval Let_def del: One_nat_def)

lemma float_eq_zero_iff: "float_eq v (Float False 0 0) = is_zero v"
  by (auto simp: float_eq_def is_nan_def is_zero_def scaled_def signif_def exp2_def)

lemma float_eq_lit_zero_iff: "float_eq v (float_lit 0 1) = is_zero v"
  unfolding lit_0_0 by (rule float_eq_zero_iff)

lemma float_eq_lit_zero_Suc_iff: "float_eq v (float_lit 0 (Suc 0)) = is_zero v"
  using float_eq_lit_zero_iff by simp

lemma length_four: "length xs = 4 \<Longrightarrow> \<exists>a b c d. xs = [a, b, c, d]"
  by (auto simp: numeral_eq_Suc length_Suc_conv)

lemma set_speeds_four:
  "set_speeds fl fr rl rr [m0, m1, m2, m3] =
     ([assign fl m0, assign fr m1, assign rl m2, assign rr m3], None)"
  by (simp add: set_speeds_def assign_def float_eq_lit_zero_Suc_iff)

lemma float_eq_refl: "\<not> is_nan a \<Longrightarrow> float_eq a a"
  by (simp add: float_eq_def)

section \<open>The steering table\<close>

text \<open>
  Claim C1. For every integer control word the values \<^verbatim>\<open>steer_vehicle\<close> hands to
  \<^verbatim>\<open>set_speeds\<close> are the row of the specification's table, bit for bit and under
  Python's \<^verbatim>\<open>==\<close>; \<open>FORWARD\<close> is \<open>0.5\<close> and \<open>BACKWARD\<close> is \<open>-0.5\<close>; the
  row of code 1 is \<open>(0.725, -0.5, 0.725, -0.5)\<close>; every integer outside 1 to 8 (0 and the
  negative ones too) gets four times \<open>0.0\<close>; and \<^verbatim>\<open>steer_vehicle\<close> applies exactly the
  row of the table to the motors.
\<close>

theorem steer_vehicle_vector_table:
  "steer_vector control_word = spec_table control_word
   \<and> vec_eq (steer_vector control_word) (spec_table control_word)
   \<and> FORWARD = float_lit 5 1 \<and> BACKWARD = float_neg (float_lit 5 1)
   \<and> steer_vector 1 =
       (float_lit 725 3, float_neg (float_lit 5 1), float_lit 725 3, float_neg (float_lit 5 1))
   \<and> ((1 \<le> control_word \<and> control_word \<le> 8)
       \<or> steer_vector control_word = (float_lit 0 1, float_lit 0 1, float_lit 0 1, float_lit 0 1))
   \<and> steer_vehicle control_word all_motors =
       (case spec_table control_word of
          (fl, fr, rl, rr) \<Rightarrow>
            (case set_speeds fl fr rl rr all_motors of
               (ms, None) \<Rightarrow> (ms, Inr (steer_action control_word))
             | (ms, Some e) \<Rightarrow> (ms, Inl e)))"
proof -
  have eq: "steer_vector control_word = spec_table control_word"
    by (simp add: steer_vector_def steer_values_bits spec_table_bits)
  have nan: "vec_eq (steer_vector control_word) (spec_table control_word)"
    unfolding eq by (simp add: vec_eq_def spec_table_bits float_eq_def is_nan_def)
  have cs: "FORWARD = float_lit 5 1 \<and> BACKWARD = float_neg (float_lit 5 1)"
    by (simp add: FORWARD_def BACKWARD_def MAX_SPEED_def)
  have one: "steer_vector 1 =
       (float_lit 725 3, float_neg (float_lit 5 1), float_lit 725 3, float_neg (float_lit 5 1))"
    by (simp add: steer_vector_def steer_values_bits lit_0_725 lit_0_5 float_neg_def
        del: One_nat_def)
  have other: "(1 \<le> control_word \<and> control_word \<le> 8)
       \<or> steer_vector control_word = (float_lit 0 1, float_lit 0 1, float_lit 0 1, float_lit 0 1)"
    by (simp add: steer_vector_def steer_values_bits lit_0_0 del: One_nat_def)
  have run: "steer_vehicle control_word all_motors =
       (case spec_table control_word of
          (fl, fr, rl, rr) \<Rightarrow>
            (case set_speeds fl fr rl rr all_motors of
               (ms, None) \<Rightarrow> (ms, Inr (steer_action control_word))
             | (ms, Some e) \<Rightarrow> (ms, Inl e)))"
    unfolding eq [symmetric]
    by (simp add: steer_vehicle_def steer_vector_def steer_action_def split: prod.splits)
  from eq nan cs one other run show ?thesis by blast
qed

theorem steer_vehicle_vector_table_witness:
  "steer_vector 1 = spec_table 1
   \<and> steer_vector 1 =
       (float_lit 725 3, float_neg (float_lit 5 1), float_lit 725 3, float_neg (float_lit 5 1))
   \<and> steer_vector (- 3) = (float_lit 0 1, float_lit 0 1, float_lit 0 1, float_lit 0 1)
   \<and> steer_vector 99 = spec_table 99"
proof -
  have a: "steer_vector 1 = spec_table 1"
    using steer_vehicle_vector_table [of 1] by blast
  have b: "steer_vector 1 =
       (float_lit 725 3, float_neg (float_lit 5 1), float_lit 725 3, float_neg (float_lit 5 1))"
    using steer_vehicle_vector_table [of 1] by blast
  have "\<not> (1 \<le> (- 3 :: int) \<and> (- 3 :: int) \<le> 8)"
    by simp
  then have c: "steer_vector (- 3) = (float_lit 0 1, float_lit 0 1, float_lit 0 1, float_lit 0 1)"
    using steer_vehicle_vector_table [of "- 3"] by blast
  have d: "steer_vector 99 = spec_table 99"
    using steer_vehicle_vector_table [of 99] by blast
  from a b c d show ?thesis by blast
qed

section \<open>Detach on zero\<close>

lemma assign_simps:
  "mvalue (assign v m) = (if is_zero v then None else Some v)"
  "pin (assign v m) = pin m" "closed (assign v m) = closed m"
  by (simp_all add: assign_def)

text \<open>
  Claim C2. With the four motors of the node, \<^verbatim>\<open>set_speeds\<close> raises nothing and leaves
  channel \<open>i\<close> detached (value \<^verbatim>\<open>None\<close>) exactly when its commanded value compares
  equal to \<open>0.0\<close>; otherwise the channel carries exactly the commanded value. The
  comparison holds only for the two zeros, so a nonzero value of any magnitude, the
  smallest subnormal included, makes the channel active. Pin and release state stay.
\<close>

theorem set_speeds_detached_iff_zero:
  "length all_motors = 4 \<Longrightarrow> i < 4 \<Longrightarrow>
   (case set_speeds fl_val fr_val rl_val rr_val all_motors of
      (ms, e) \<Rightarrow>
        e = None \<and> length ms = 4
        \<and> (detached (ms ! i) \<longleftrightarrow> float_eq ([fl_val, fr_val, rl_val, rr_val] ! i) (float_lit 0 1))
        \<and> (float_eq ([fl_val, fr_val, rl_val, rr_val] ! i) (float_lit 0 1)
             \<or> mvalue (ms ! i) = Some ([fl_val, fr_val, rl_val, rr_val] ! i))
        \<and> (float_eq ([fl_val, fr_val, rl_val, rr_val] ! i) (float_lit 0 1)
             \<longleftrightarrow> is_zero ([fl_val, fr_val, rl_val, rr_val] ! i))
        \<and> pin (ms ! i) = pin (all_motors ! i) \<and> closed (ms ! i) = closed (all_motors ! i))"
proof -
  assume len: "length all_motors = 4" and i: "i < 4"
  from len obtain m0 m1 m2 m3 where ms: "all_motors = [m0, m1, m2, m3]"
    using length_four by blast
  from i have "i = 0 \<or> i = 1 \<or> i = 2 \<or> i = 3"
    by auto
  then show ?thesis
    unfolding ms set_speeds_four
    by (auto simp: detached_def assign_simps float_eq_lit_zero_iff simp del: One_nat_def
        split: if_splits)
qed


theorem set_speeds_detached_iff_zero_witness:
  "(case set_speeds (Float False 0 1) (float_lit 0 1) (float_neg (float_lit 0 1)) (float_lit 5 1)
      [\<lparr>pin = 27, mvalue = None, closed = False\<rparr>,
       \<lparr>pin = 17, mvalue = Some (float_lit 5 1), closed = False\<rparr>,
       \<lparr>pin = 22, mvalue = Some (float_lit 5 1), closed = False\<rparr>,
       \<lparr>pin = 23, mvalue = None, closed = False\<rparr>] of
      (ms, e) \<Rightarrow>
        e = None \<and> \<not> detached (ms ! 0) \<and> mvalue (ms ! 0) = Some (Float False 0 1)
        \<and> detached (ms ! 1))"
proof -
  let ?ms = "[\<lparr>pin = 27, mvalue = None, closed = False\<rparr>,
       \<lparr>pin = 17, mvalue = Some (float_lit 5 1), closed = False\<rparr>,
       \<lparr>pin = 22, mvalue = Some (float_lit 5 1), closed = False\<rparr>,
       \<lparr>pin = 23, mvalue = None, closed = False\<rparr>]"
  have len: "length ?ms = 4" by simp
  have z: "\<not> is_zero (Float False 0 1)" "is_zero (float_lit 0 1)"
    by (simp_all add: is_zero_def lit_0_0 del: One_nat_def)
  have i0: "(0::nat) < 4" and i1: "(1::nat) < 4" by simp_all
  show ?thesis
    using set_speeds_detached_iff_zero [OF len i0, of "Float False 0 1" "float_lit 0 1"
        "float_neg (float_lit 0 1)" "float_lit 5 1"]
      set_speeds_detached_iff_zero [OF len i1, of "Float False 0 1" "float_lit 0 1"
        "float_neg (float_lit 0 1)" "float_lit 5 1"] z
    by (auto simp del: One_nat_def split: prod.splits)
qed

lemma set_speeds_loop_idem:
  "set_speeds_loop vals i (fst (set_speeds_loop vals i ms)) = set_speeds_loop vals i ms"
proof (induction ms arbitrary: i)
  case Nil
  show ?case by simp
next
  case (Cons m ms)
  show ?case
  proof (cases "length vals \<le> i")
    case True
    then show ?thesis by simp
  next
    case False
    obtain rest e where r: "set_speeds_loop vals (i + 1) ms = (rest, e)"
      by (cases "set_speeds_loop vals (i + 1) ms")
    have "set_speeds_loop vals (i + 1) rest = (rest, e)"
      using Cons.IH [of "i + 1"] r by simp
    with False r show ?thesis
      by (simp add: Let_def)
  qed
qed

text \<open>
  Claim C9. Applying the same four values a second time changes nothing: the motors and
  the outcome are those of the first application, for every four values and every list
  of motors in any state.
\<close>

theorem set_speeds_idempotent:
  "set_speeds fl_val fr_val rl_val rr_val
     (fst (set_speeds fl_val fr_val rl_val rr_val all_motors))
   = set_speeds fl_val fr_val rl_val rr_val all_motors"
  unfolding set_speeds_def by (rule set_speeds_loop_idem)

theorem set_speeds_idempotent_witness:
  "set_speeds (float_lit 5 1) (float_lit 0 1) (float_lit 5 1) (float_lit 0 1)
     (fst (set_speeds (float_lit 5 1) (float_lit 0 1) (float_lit 5 1) (float_lit 0 1)
        [\<lparr>pin = 27, mvalue = None, closed = False\<rparr>,
         \<lparr>pin = 17, mvalue = Some (float_lit 5 1), closed = False\<rparr>,
         \<lparr>pin = 22, mvalue = None, closed = False\<rparr>,
         \<lparr>pin = 23, mvalue = Some (float_lit 5 1), closed = False\<rparr>]))
   = set_speeds (float_lit 5 1) (float_lit 0 1) (float_lit 5 1) (float_lit 0 1)
        [\<lparr>pin = 27, mvalue = None, closed = False\<rparr>,
         \<lparr>pin = 17, mvalue = Some (float_lit 5 1), closed = False\<rparr>,
         \<lparr>pin = 22, mvalue = None, closed = False\<rparr>,
         \<lparr>pin = 23, mvalue = Some (float_lit 5 1), closed = False\<rparr>]"
  by (rule set_speeds_idempotent)

section \<open>The range of the drive values\<close>

lemmas float_cmp_eval = float_le_def float_eq_def is_nan_def scaled_def signif_def exp2_def

lemma bounded_values:
  "in_unit_range (Float s 1022 2026619832316723) \<and>
     float_le (float_abs (Float s 1022 2026619832316723)) (float_lit 75 2)"
  "in_unit_range (Float s 1022 1351079888211149) \<and>
     float_le (float_abs (Float s 1022 1351079888211149)) (float_lit 75 2)"
  "in_unit_range (Float s 1022 2251799813685248) \<and>
     float_le (float_abs (Float s 1022 2251799813685248)) (float_lit 75 2)"
  "in_unit_range (Float s 1022 0) \<and> float_le (float_abs (Float s 1022 0)) (float_lit 75 2)"
  "in_unit_range (Float s 1021 0) \<and> float_le (float_abs (Float s 1021 0)) (float_lit 75 2)"
  "in_unit_range (Float s 0 0) \<and> float_le (float_abs (Float s 0 0)) (float_lit 75 2)"
  unfolding in_unit_range_def lit_1_0 lit_0_75 float_neg_def float_abs_def
  by (cases s; simp add: float_cmp_eval)+

text \<open>
  Claim C8. For every integer control word each of the four values lies in
  \<open>[-1.0, 1.0]\<close>, and its magnitude is at most \<open>0.75\<close>. The bound is reached: the
  front-left value of code 3 is \<open>0.75\<close>, the unclamped product \<open>FORWARD * 1.5\<close>.
\<close>

theorem steer_vector_in_range:
  "(case steer_vector control_word of
      (fl, fr, rl, rr) \<Rightarrow>
        list_all (\<lambda>v. in_unit_range v \<and> float_le (float_abs v) (float_lit 75 2))
          [fl, fr, rl, rr])
   \<and> float_abs (fst (steer_vector 3)) = float_lit 75 2
   \<and> float_lit 75 2 = float_mul FORWARD (float_lit 15 1)"
proof -
  have rng: "case steer_vector control_word of
      (fl, fr, rl, rr) \<Rightarrow>
        list_all (\<lambda>v. in_unit_range v \<and> float_le (float_abs v) (float_lit 75 2))
          [fl, fr, rl, rr]"
    unfolding steer_vector_def steer_values_bits
    by (simp add: bounded_values)
  have top: "float_abs (fst (steer_vector 3)) = float_lit 75 2"
    unfolding steer_vector_def steer_values_bits lit_0_75 float_abs_def by simp
  have prod: "float_lit 75 2 = float_mul FORWARD (float_lit 15 1)"
    unfolding lit_0_75 by (simp add: constants_eval del: One_nat_def)
  from rng top prod show ?thesis by blast
qed

theorem steer_vector_in_range_witness:
  "(case steer_vector 5 of
      (fl, fr, rl, rr) \<Rightarrow>
        list_all (\<lambda>v. in_unit_range v \<and> float_le (float_abs v) (float_lit 75 2))
          [fl, fr, rl, rr])"
  using steer_vector_in_range [of 5] by (rule conjunct1)

section \<open>Negative zero\<close>

text \<open>
  Claim C10. For code 8 the front-right value is \<open>-0.0\<close>: the bit pattern with the sign
  set, not that of \<open>0.0\<close>. It compares equal to \<open>0.0\<close>, so \<^verbatim>\<open>steer_vehicle 8\<close>
  leaves the front-right channel detached, as a positive zero would, while the front-left
  channel is driven.
\<close>

theorem code_8_front_right_negative_zero:
  "length all_motors = 4 \<Longrightarrow>
   fst (snd (steer_vector 8)) = float_neg (float_lit 0 1)
   \<and> fst (snd (steer_vector 8)) = Float True 0 0
   \<and> float_lit 0 1 = Float False 0 0
   \<and> float_eq (float_neg (float_lit 0 1)) (float_lit 0 1)
   \<and> (case steer_vehicle 8 all_motors of
        (ms, r) \<Rightarrow> r = Inr ''DIAGONAL-RIGHT'' \<and> detached (ms ! 1) \<and> \<not> detached (ms ! 0))"
proof -
  assume "length all_motors = 4"
  then obtain m0 m1 m2 m3 where ms: "all_motors = [m0, m1, m2, m3]"
    using length_four by blast
  have a: "fst (snd (steer_vector 8)) = float_neg (float_lit 0 1)"
    by (simp add: steer_vector_def steer_values_def)
  have b: "fst (snd (steer_vector 8)) = Float True 0 0"
    by (simp add: steer_vector_def steer_values_bits)
  have c: "float_lit 0 1 = Float False 0 0"
    by (rule lit_0_0)
  have d: "float_eq (float_neg (float_lit 0 1)) (float_lit 0 1)"
    unfolding float_eq_lit_zero_iff by (simp add: lit_0_0 float_neg_def is_zero_def del: One_nat_def)
  have e: "case steer_vehicle 8 all_motors of
        (ms, r) \<Rightarrow> r = Inr ''DIAGONAL-RIGHT'' \<and> detached (ms ! 1) \<and> \<not> detached (ms ! 0)"
    unfolding ms steer_vehicle_def steer_values_bits
    by (simp add: set_speeds_four detached_def assign_simps is_zero_def)
  from a b c d e show ?thesis by blast
qed

theorem code_8_front_right_negative_zero_witness:
  "(case steer_vehicle 8
      [\<lparr>pin = 27, mvalue = None, closed = False\<rparr>,
       \<lparr>pin = 17, mvalue = Some (float_lit 5 1), closed = False\<rparr>,
       \<lparr>pin = 22, mvalue = None, closed = False\<rparr>,
       \<lparr>pin = 23, mvalue = None, closed = False\<rparr>] of
        (ms, r) \<Rightarrow> r = Inr ''DIAGONAL-RIGHT'' \<and> detached (ms ! 1) \<and> \<not> detached (ms ! 0))"
proof -
  have len: "length [\<lparr>pin = 27, mvalue = None, closed = False\<rparr>,
       \<lparr>pin = 17, mvalue = Some (float_lit 5 1), closed = False\<rparr>,
       \<lparr>pin = 22, mvalue = None, closed = False\<rparr>,
       \<lparr>pin = (23::nat), mvalue = None, closed = False\<rparr>] = 4"
    by simp
  show ?thesis
    using code_8_front_right_negative_zero [OF len] by (elim conjE) assumption
qed

section \<open>The action labels\<close>

text \<open>
  Claim C6, as amended. For every integer control word other than 2 the action is
  \<open>FORWARD\<close> for 1, \<open>LEFT\<close> for 3, \<open>RIGHT\<close> for 4, \<open>TURN-LEFT\<close> for 5,
  \<open>TURN-RIGHT\<close> for 6, \<open>DIAGONAL-LEFT\<close> for 7, \<open>DIAGONAL-RIGHT\<close> for 8, and
  \<open>STOP (Detached)\<close> for 0 and every other integer; with the four motors
  \<^verbatim>\<open>steer_vehicle\<close> returns that action.
\<close>

theorem steer_action_labels:
  "control_word \<noteq> 2 \<Longrightarrow>
   steer_action control_word =
     (if control_word = 1 then ''FORWARD''
      else if control_word = 3 then ''LEFT''
      else if control_word = 4 then ''RIGHT''
      else if control_word = 5 then ''TURN-LEFT''
      else if control_word = 6 then ''TURN-RIGHT''
      else if control_word = 7 then ''DIAGONAL-LEFT''
      else if control_word = 8 then ''DIAGONAL-RIGHT''
      else ''STOP (Detached)'')
   \<and> (length all_motors \<noteq> 4
       \<or> snd (steer_vehicle control_word all_motors) = Inr (steer_action control_word))"
proof -
  assume ne: "control_word \<noteq> 2"
  then have lab: "steer_action control_word =
     (if control_word = 1 then ''FORWARD''
      else if control_word = 3 then ''LEFT''
      else if control_word = 4 then ''RIGHT''
      else if control_word = 5 then ''TURN-LEFT''
      else if control_word = 6 then ''TURN-RIGHT''
      else if control_word = 7 then ''DIAGONAL-LEFT''
      else if control_word = 8 then ''DIAGONAL-RIGHT''
      else ''STOP (Detached)'')"
    by (simp add: steer_action_def steer_values_def)
  have ret: "length all_motors \<noteq> 4
       \<or> snd (steer_vehicle control_word all_motors) = Inr (steer_action control_word)"
  proof (cases "length all_motors = 4")
    case True
    then obtain m0 m1 m2 m3 where ms: "all_motors = [m0, m1, m2, m3]"
      using length_four by blast
    show ?thesis
      unfolding ms by (simp add: steer_vehicle_def steer_action_def set_speeds_four split: prod.splits)
  next
    case False
    then show ?thesis by simp
  qed
  from lab ret show ?thesis by blast
qed

theorem steer_action_labels_witness:
  "steer_action 0 = ''STOP (Detached)'' \<and> steer_action 7 = ''DIAGONAL-LEFT''
   \<and> steer_action 99 = ''STOP (Detached)''"
proof -
  have n0: "(0::int) \<noteq> 2" and n7: "(7::int) \<noteq> 2" and n99: "(99::int) \<noteq> 2"
    by simp_all
  show ?thesis
    using steer_action_labels [OF n0] steer_action_labels [OF n7] steer_action_labels [OF n99]
    by simp
qed

text \<open>
  The claim as it was stated fails: the label of code 0 and of code 99 is not \<open>STOP\<close>.
\<close>

theorem steer_action_stop_counterexample:
  "steer_action 0 \<noteq> ''STOP'' \<and> steer_action 99 \<noteq> ''STOP''
   \<and> snd (steer_vehicle 0
        [\<lparr>pin = 27, mvalue = None, closed = False\<rparr>,
         \<lparr>pin = 17, mvalue = None, closed = False\<rparr>,
         \<lparr>pin = 22, mvalue = None, closed = False\<rparr>,
         \<lparr>pin = 23, mvalue = None, closed = False\<rparr>]) = Inr ''STOP (Detached)''"
  by (simp add: steer_action_def steer_values_def steer_vehicle_def set_speeds_four)

section \<open>Evaluating runs of the script\<close>

lemmas text_eval = read_control_word_def strip_def isdigit_def py_int_def
  int_max_str_digits_def unicode_14_def decimal_zeros_def other_digit_ranges_def
  space_ranges_def in_ranges_def py_str_def Let_def

lemma init_ok: "init_all_motors (\<lambda>p. True) = Started
   [\<lparr>pin = 27, mvalue = None, closed = False\<rparr>,
    \<lparr>pin = 17, mvalue = None, closed = False\<rparr>,
    \<lparr>pin = 22, mvalue = None, closed = False\<rparr>,
    \<lparr>pin = 23, mvalue = None, closed = False\<rparr>]"
  by (simp add: init_all_motors_def init_motor_def FRONT_LEFT_PIN_def FRONT_RIGHT_PIN_def
      REAR_LEFT_PIN_def REAR_RIGHT_PIN_def)

lemma unicode_14_decimal_isdigit:
  "decimal unicode_14 c \<noteq> None \<Longrightarrow> isdigit_cp unicode_14 c"
proof -
  have "filter P xs \<noteq> [] \<Longrightarrow> list_ex P xs" for P :: "nat \<Rightarrow> bool" and xs
    by (induction xs) (auto split: if_splits)
  then show "decimal unicode_14 c \<noteq> None \<Longrightarrow> isdigit_cp unicode_14 c"
    by (auto simp: unicode_14_def split: list.splits)
qed

lemma read_ascii_1: "read_control_word unicode_14 (Content (py_str ''1'')) = 1"
  by (simp add: text_eval)

lemma read_ascii_6: "read_control_word unicode_14 (Content (py_str ''6'')) = 6"
  by (simp add: text_eval)

lemmas script_eval = script_def init_ok main_def read_ascii_1 read_ascii_6 steer_vehicle_def
  steer_values_bits set_speeds_four assign_def is_zero_def detached_def

section \<open>Shutdown\<close>

lemma cleanup_closed_form:
  "cleanup close_ok ms =
     (let k = length (takeWhile (\<lambda>m. close_ok (pin m)) ms)
      in if k = length ms then (map release ms, None)
         else (map release (take k ms) @ [(ms ! k)\<lparr>mvalue := None\<rparr>] @ drop (Suc k) ms,
               Some DeviceError))"
proof (induction ms)
  case Nil
  show ?case by simp
next
  case (Cons m ms)
  show ?case
  proof (cases "close_ok (pin m)")
    case True
    with Cons.IH show ?thesis
      by (simp add: Let_def release_def)
  next
    case False
    then show ?thesis by simp
  qed
qed

lemma cleanup_all_ok:
  "list_all (\<lambda>m. close_ok (pin m)) ms \<Longrightarrow> cleanup close_ok ms = (map release ms, None)"
  by (induction ms) (simp_all add: release_def)

lemma set_speeds_loop_pins:
  "map pin (fst (set_speeds_loop vals i ms)) = map pin ms"
proof (induction ms arbitrary: i)
  case Nil
  show ?case by simp
next
  case (Cons m ms)
  show ?case
    using Cons.IH [of "i + 1"]
    by (cases "set_speeds_loop vals (i + 1) ms") (simp add: Let_def)
qed

lemma steer_vehicle_pins:
  "map pin (fst (steer_vehicle control_word ms)) = map pin ms"
proof -
  obtain fl fr rl rr action where v: "steer_values control_word = (fl, fr, rl, rr, action)"
    by (cases "steer_values control_word")
  obtain ms' e where s: "set_speeds fl fr rl rr ms = (ms', e)"
    by (cases "set_speeds fl fr rl rr ms")
  have "map pin ms' = map pin ms"
    using set_speeds_loop_pins [of "[fl, fr, rl, rr]" 0 ms] s by (simp add: set_speeds_def)
  then show ?thesis
    using v s by (cases e) (simp_all add: steer_vehicle_def)
qed

lemma run_loop_pins:
  "map pin (fst (run_loop db events ms out)) = map pin ms"
proof (induction db events ms out rule: run_loop.induct)
  case (1 db ms out)
  show ?case by simp
next
  case (2 db e events ms out)
  show ?case by simp
next
  case (3 db src events ms out)
  obtain ms' r where sv: "steer_vehicle (read_control_word db src) ms = (ms', r)"
    by (cases "steer_vehicle (read_control_word db src) ms")
  have pins: "map pin ms' = map pin ms"
    using steer_vehicle_pins [of "read_control_word db src" ms] sv by simp
  show ?case
  proof (cases r)
    case (Inl e)
    with sv pins show ?thesis by simp
  next
    case (Inr action)
    with sv pins "3.IH" [OF refl sv [symmetric] Inr] show ?thesis
      by simp
  qed
qed

lemma cleanup_detaches_if_earlier_closes_succeed:
  "list_all (\<lambda>m. close_ok (pin m)) (butlast ms) \<Longrightarrow>
   list_all detached (fst (cleanup close_ok ms))"
proof (induction ms)
  case Nil
  show ?case by simp
next
  case (Cons m ms)
  show ?case
  proof (cases "ms = []")
    case True
    then show ?thesis
      by (simp add: detached_def)
  next
    case False
    with Cons show ?thesis
      by (cases "cleanup close_ok ms") (simp add: detached_def)
  qed
qed

lemma cleanup_pins: "map pin (fst (cleanup close_ok ms)) = map pin ms"
proof (induction ms)
  case Nil
  show ?case by simp
next
  case (Cons m ms)
  then show ?case
    by (cases "cleanup close_ok ms") simp
qed

text \<open>
  What does hold at every exit of the loop: when no release fails, unless it is the last
  one, every motor ends detached, on the pin it had.
\<close>

lemma main_exit_detaches_if_earlier_closes_succeed:
  "main db close_ok events all_motors = (ms, out, st) \<Longrightarrow> st \<noteq> Running \<Longrightarrow>
   list_all (\<lambda>m. close_ok (pin m)) (butlast all_motors) \<Longrightarrow>
   list_all detached ms \<and> map pin ms = map pin all_motors"
proof -
  assume m: "main db close_ok events all_motors = (ms, out, st)"
    and st: "st \<noteq> Running"
    and ok: "list_all (\<lambda>m. close_ok (pin m)) (butlast all_motors)"
  obtain ms1 out1 r where rl: "run_loop db events all_motors [] = (ms1, out1, r)"
    by (cases "run_loop db events all_motors []")
  from m st rl obtain e where e: "r = Some e"
    by (cases r) (auto simp: main_def)
  have pins: "map pin ms1 = map pin all_motors"
    using run_loop_pins [of db events all_motors "[]"] rl by simp
  have "list_all (\<lambda>m. close_ok (pin m)) (butlast ms1) = list_all close_ok (butlast (map pin ms1))"
    by (simp add: list_all_iff map_butlast [symmetric])
  also have "\<dots> = list_all (\<lambda>m. close_ok (pin m)) (butlast all_motors)"
    unfolding pins by (simp add: list_all_iff map_butlast [symmetric])
  finally have ok1: "list_all (\<lambda>m. close_ok (pin m)) (butlast ms1)"
    using ok by simp
  obtain ms2 r2 where c: "cleanup close_ok ms1 = (ms2, r2)"
    by (cases "cleanup close_ok ms1")
  have d: "list_all detached ms2"
    using cleanup_detaches_if_earlier_closes_succeed [OF ok1] c by simp
  have p: "map pin ms2 = map pin ms1"
    using cleanup_pins [of close_ok ms1] c by simp
  from m rl e c have ms: "ms = ms2"
    by (cases r2) (simp_all add: main_def)
  show ?thesis
    unfolding ms using d p pins by simp
qed

text \<open>
  Claim C3: shutdown is attempted on all four channels, each attempt made even if an
  earlier release fails, so that all four end detached. The code does not do this. The
  script starts its four motors, makes one pass with the control file holding \<open>1\<close>, and
  is interrupted by Ctrl-C; the release of the front-left motor (pin 27) fails. The
  \<^verbatim>\<open>finally\<close> block detaches the front-left motor, \<^verbatim>\<open>close()\<close> raises, and the block is
  left: the other three motors keep the values \<open>-0.5\<close>, \<open>0.725\<close> and \<open>-0.5\<close> of the
  FORWARD command, neither detached nor released, though the block's own comment reads
  "Safety: Detach all motors on exit".
\<close>

theorem failed_close_leaves_later_motors_driven:
  "script unicode_14 (\<lambda>p. True) (\<lambda>p. p \<noteq> 27)
       [Tick (Content (py_str ''1'')), Raise KeyboardInterrupt]
     = ([\<lparr>pin = 27, mvalue = None, closed = False\<rparr>,
         \<lparr>pin = 17, mvalue = Some (float_neg (float_lit 5 1)), closed = False\<rparr>,
         \<lparr>pin = 22, mvalue = Some (float_lit 725 3), closed = False\<rparr>,
         \<lparr>pin = 23, mvalue = Some (float_neg (float_lit 5 1)), closed = False\<rparr>],
        [(1, ''FORWARD'')], Raised DeviceError)
   \<and> \<not> list_all detached
         (fst (script unicode_14 (\<lambda>p. True) (\<lambda>p. p \<noteq> 27)
                 [Tick (Content (py_str ''1'')), Raise KeyboardInterrupt]))"
  by (simp add: script_eval lit_0_5 lit_0_725 float_neg_def del: One_nat_def)

text \<open>
  Claim C7: whenever the loop exits, by user interruption or any other cause, every one of
  the four channels is forced to detached. The code does not do this at every exit: nothing
  in the \<^verbatim>\<open>finally\<close> block catches an exception of \<^verbatim>\<open>close()\<close>. The script makes one pass with the control file holding
  \<open>6\<close>, the loop ends with an OSError, and the release of the rear-left motor (pin 22)
  fails: the front motors are detached and released, the rear-left motor is detached, and
  the rear-right motor still carries \<open>0.75\<close> when \<^verbatim>\<open>main\<close> is left.
\<close>

theorem loop_exit_leaves_motor_driven:
  "script unicode_14 (\<lambda>p. True) (\<lambda>p. p \<noteq> 22)
       [Tick (Content (py_str ''6'')), Raise OSError]
     = ([\<lparr>pin = 27, mvalue = None, closed = True\<rparr>,
         \<lparr>pin = 17, mvalue = None, closed = True\<rparr>,
         \<lparr>pin = 22, mvalue = None, closed = False\<rparr>,
         \<lparr>pin = 23, mvalue = Some (float_lit 75 2), closed = False\<rparr>],
        [(6, ''TURN-RIGHT'')], Raised DeviceError)
   \<and> \<not> list_all detached
         (fst (script unicode_14 (\<lambda>p. True) (\<lambda>p. p \<noteq> 22)
                 [Tick (Content (py_str ''6'')), Raise OSError]))"
  by (simp add: script_eval lit_0_75 del: One_nat_def)

section \<open>Failed initialisation\<close>



section \<open>Read failures\<close>

lemma int_digits_decimal:
  "list_all (\<lambda>c. decimal db c \<noteq> None) cs \<Longrightarrow>
   int_digits db n cs =
     Some (foldl (\<lambda>n c. 10 * n + (case decimal db c of None \<Rightarrow> 0 | Some d \<Rightarrow> int d)) n cs)"
  by (induction cs arbitrary: n) auto

lemma int_digits_other:
  "\<not> list_all (\<lambda>c. decimal db c \<noteq> None) cs \<Longrightarrow> int_digits db n cs = None"
  by (induction cs arbitrary: n) (auto split: option.splits)

lemma read_control_word_Content:
  "read_control_word db (Content body) =
     (if int_accepts db (strip db body) then decimal_value db (strip db body) else 0)"
proof (cases "int_accepts db (strip db body)")
  case True
  then have "int_digits db 0 (strip db body) = Some (decimal_value db (strip db body))"
    using int_digits_decimal [of db "strip db body" 0]
    by (simp add: int_accepts_def all_decimal_def decimal_value_def)
  with True show ?thesis
    by (simp add: read_control_word_def isdigit_def py_int_def int_accepts_def all_decimal_def)
next
  case False
  show ?thesis
  proof (cases "list_all (\<lambda>c. decimal db c \<noteq> None) (strip db body)")
    case True
    with False show ?thesis
      by (auto simp: read_control_word_def isdigit_def py_int_def int_accepts_def
          all_decimal_def Let_def)
  next
    case dec: False
    then have "int_digits db 0 (strip db body) = None"
      by (rule int_digits_other)
    with False show ?thesis
      by (simp add: read_control_word_def py_int_def Let_def)
  qed
qed

lemma foldl_decimal_nonneg:
  "0 \<le> n \<Longrightarrow>
   0 \<le> foldl (\<lambda>n c. 10 * n + (case decimal db c of None \<Rightarrow> 0 | Some d \<Rightarrow> int d)) n cs"
proof (induction cs arbitrary: n)
  case Nil
  then show ?case by simp
next
  case (Cons c cs)
  from Cons.prems have "0 \<le> 10 * n + (case decimal db c of None \<Rightarrow> 0 | Some d \<Rightarrow> int d)"
    by (simp split: option.splits)
  then show ?case
    using Cons.IH by simp
qed

lemma read_control_word_cases:
  "read_control_word db src =
     (case src of
        Missing \<Rightarrow> 0
      | Unreadable \<Rightarrow> 0
      | Content body \<Rightarrow>
          if int_accepts db (strip db body) then decimal_value db (strip db body) else 0)"
  by (cases src) (simp_all add: read_control_word_Content, simp_all add: read_control_word_def)

lemma read_control_word_nonneg: "0 \<le> read_control_word db src"
  using foldl_decimal_nonneg [of 0 db]
  by (simp add: read_control_word_cases decimal_value_def split: source.splits)

lemma read_error_zero: "read_error db src \<Longrightarrow> read_control_word db src = 0"
  by (simp add: read_control_word_cases read_error_def split: source.splits)

lemma steer_vehicle_stop_four:
  "length ms = 4 \<Longrightarrow>
   steer_vehicle 0 ms = (map (\<lambda>m. m\<lparr>mvalue := None\<rparr>) ms, Inr ''STOP (Detached)'')"
proof -
  assume "length ms = 4"
  then obtain m0 m1 m2 m3 where ms: "ms = [m0, m1, m2, m3]"
    using length_four by blast
  show ?thesis
    unfolding ms steer_vehicle_def steer_values_bits
    by (simp add: set_speeds_four assign_def is_zero_def)
qed

lemma run_loop_read_errors:
  "length ms = 4 \<Longrightarrow> list_all (read_error db) srcs \<Longrightarrow>
   run_loop db (map Tick srcs) ms out =
     (if srcs = [] then ms else map (\<lambda>m. m\<lparr>mvalue := None\<rparr>) ms,
      out @ replicate (length srcs) (0, ''STOP (Detached)''), None)"
proof (induction srcs arbitrary: ms out)
  case Nil
  show ?case by simp
next
  case (Cons src srcs)
  let ?ms' = "map (\<lambda>m. m\<lparr>mvalue := None\<rparr>) ms"
  from Cons.prems have zero: "read_control_word db src = 0"
    and rest: "list_all (read_error db) srcs"
    by (simp_all add: read_error_zero)
  have sv: "steer_vehicle 0 ms = (?ms', Inr ''STOP (Detached)'')"
    using Cons.prems(1) by (rule steer_vehicle_stop_four)
  have len: "length ?ms' = 4"
    using Cons.prems(1) by simp
  have idem: "map (\<lambda>m. m\<lparr>mvalue := None\<rparr>) ?ms' = ?ms'"
    by simp
  have "run_loop db (map Tick (src # srcs)) ms out =
          run_loop db (map Tick srcs) ?ms' (out @ [(0, ''STOP (Detached)'')])"
    by (simp add: zero sv)
  also have "\<dots> = (if srcs = [] then ?ms' else map (\<lambda>m. m\<lparr>mvalue := None\<rparr>) ?ms',
      (out @ [(0, ''STOP (Detached)'')]) @ replicate (length srcs) (0, ''STOP (Detached)''), None)"
    by (rule Cons.IH [OF len rest])
  also have "\<dots> = (if src # srcs = [] then ms else ?ms',
      out @ replicate (length (src # srcs)) (0, ''STOP (Detached)''), None)"
    unfolding idem by (simp add: replicate_app_Cons_same)
  finally show ?case .
qed

text \<open>
  Claim C5. For every Unicode database, the control word read in a pass is the integer the
  stripped content spells when that content consists exclusively of decimal digits that
  \<^verbatim>\<open>int\<close> accepts, and 0 for any other content, for an absent file and for a read that
  raises; so a word other than 0 is read only from a content of decimal digits alone, and
  the word is never negative. With the four motors, any number of passes that each meet a
  read error leave \<^verbatim>\<open>main\<close> running: every pass reports word 0 with the action of the
  stop branch, whose values are four times \<open>0.0\<close>, and the motors are detached from the
  first pass on.
\<close>

theorem read_failure_degrades_to_stop:
  "length all_motors = 4 \<Longrightarrow> list_all (read_error db) srcs \<Longrightarrow>
   read_control_word db src =
     (case src of
        Missing \<Rightarrow> 0
      | Unreadable \<Rightarrow> 0
      | Content body \<Rightarrow>
          if int_accepts db (strip db body) then decimal_value db (strip db body) else 0)
   \<and> (read_control_word db src = 0
       \<or> (\<exists>body. src = Content body \<and> all_decimal db (strip db body)))
   \<and> 0 \<le> read_control_word db src
   \<and> main db close_ok (map Tick srcs) all_motors =
       (if srcs = [] then all_motors else map (\<lambda>m. m\<lparr>mvalue := None\<rparr>) all_motors,
        replicate (length srcs) (0, ''STOP (Detached)''), Running)
   \<and> steer_vector 0 = (float_lit 0 1, float_lit 0 1, float_lit 0 1, float_lit 0 1)"
proof -
  assume len: "length all_motors = 4" and err: "list_all (read_error db) srcs"
  have rd: "read_control_word db src =
     (case src of
        Missing \<Rightarrow> 0
      | Unreadable \<Rightarrow> 0
      | Content body \<Rightarrow>
          if int_accepts db (strip db body) then decimal_value db (strip db body) else 0)"
    by (rule read_control_word_cases)
  have only: "read_control_word db src = 0
       \<or> (\<exists>body. src = Content body \<and> all_decimal db (strip db body))"
    by (cases src) (auto simp: read_control_word_cases int_accepts_def)
  have nn: "0 \<le> read_control_word db src"
    by (rule read_control_word_nonneg)
  have lp: "main db close_ok (map Tick srcs) all_motors =
       (if srcs = [] then all_motors else map (\<lambda>m. m\<lparr>mvalue := None\<rparr>) all_motors,
        replicate (length srcs) (0, ''STOP (Detached)''), Running)"
    using run_loop_read_errors [OF len err, of "[]"] by (simp add: main_def)
  have z: "steer_vector 0 = (float_lit 0 1, float_lit 0 1, float_lit 0 1, float_lit 0 1)"
    by (simp add: steer_vector_def steer_values_def)
  from rd only nn lp z show ?thesis by blast
qed

theorem read_failure_degrades_to_stop_witness:
  "read_control_word unicode_14 (Content [12288, 1635, 10]) = 3
   \<and> main unicode_14 (\<lambda>p. True)
        (map Tick [Missing, Unreadable, Content (py_str ''abc''), Content (py_str ''1 2''),
                   Content (py_str ''-1''), Content [], Content [178]])
        [\<lparr>pin = 27, mvalue = Some (float_lit 5 1), closed = False\<rparr>,
         \<lparr>pin = 17, mvalue = Some (float_lit 5 1), closed = False\<rparr>,
         \<lparr>pin = 22, mvalue = Some (float_lit 5 1), closed = False\<rparr>,
         \<lparr>pin = 23, mvalue = Some (float_lit 5 1), closed = False\<rparr>]
      = ([\<lparr>pin = 27, mvalue = None, closed = False\<rparr>,
          \<lparr>pin = 17, mvalue = None, closed = False\<rparr>,
          \<lparr>pin = 22, mvalue = None, closed = False\<rparr>,
          \<lparr>pin = 23, mvalue = None, closed = False\<rparr>],
         [(0, ''STOP (Detached)''), (0, ''STOP (Detached)''), (0, ''STOP (Detached)''),
          (0, ''STOP (Detached)''), (0, ''STOP (Detached)''), (0, ''STOP (Detached)''),
          (0, ''STOP (Detached)'')], Running)"
proof -
  let ?ms = "[\<lparr>pin = 27, mvalue = Some (float_lit 5 1), closed = False\<rparr>,
         \<lparr>pin = 17, mvalue = Some (float_lit 5 1), closed = False\<rparr>,
         \<lparr>pin = 22, mvalue = Some (float_lit 5 1), closed = False\<rparr>,
         \<lparr>pin = (23::nat), mvalue = Some (float_lit 5 1), closed = False\<rparr>]"
  let ?srcs = "[Missing, Unreadable, Content (py_str ''abc''), Content (py_str ''1 2''),
                   Content (py_str ''-1''), Content [], Content [178]]"
  have len: "length ?ms = 4"
    by simp
  have err: "list_all (read_error unicode_14) ?srcs"
    by (simp add: read_error_def int_accepts_def all_decimal_def int_max_str_digits_def
        strip_def unicode_14_def decimal_zeros_def other_digit_ranges_def space_ranges_def
        in_ranges_def py_str_def)
  have dec: "int_accepts unicode_14 (strip unicode_14 [12288, 1635, 10])"
    "decimal_value unicode_14 (strip unicode_14 [12288, 1635, 10]) = 3"
    by (simp_all add: int_accepts_def all_decimal_def decimal_value_def int_max_str_digits_def
        strip_def unicode_14_def decimal_zeros_def other_digit_ranges_def space_ranges_def
        in_ranges_def)
  note t = read_failure_degrades_to_stop [OF len err, of "Content [12288, 1635, 10]" "\<lambda>p. True"]
  have a: "read_control_word unicode_14 (Content [12288, 1635, 10]) = 3"
    using t dec by simp
  have b: "main unicode_14 (\<lambda>p. True) (map Tick ?srcs) ?ms =
       (if ?srcs = [] then ?ms else map (\<lambda>m. m\<lparr>mvalue := None\<rparr>) ?ms,
        replicate (length ?srcs) (0, ''STOP (Detached)''), Running)"
    using t by blast
  show ?thesis
    unfolding b using a by simp
qed

end
